theory Spec2Isabelle
  imports Main
begin

section \<open>Python values and exceptions\<close>

text \<open>
  The development embeds \<^verbatim>\<open>gym_wrapper/wrapper_win.py\<close> (the classes
  \<^verbatim>\<open>FakeMultiThread\<close> and \<^verbatim>\<open>gym_envs\<close>) and the guard at the head of
  \<^verbatim>\<open>DQN.__init__\<close> in \<^verbatim>\<open>Algorithms/tf2algos/dqn.py\<close>.

  Every exception the source can raise is a value. A method of an object is a function from
  the object to the object after the call, paired with the outcome: \<open>Inl\<close> of the exception
  or \<open>Inr\<close> of the returned value. Attributes assigned before an exception stay assigned,
  as they do in Python.
\<close>

datatype error =
    AssertionError string
  | NameError string
  | ValueError
  | TypeError
  | AttributeError
  | IndexError
  | Exception string

text \<open>What \<^verbatim>\<open>get_result\<close> hands back: a value, or Python's \<^verbatim>\<open>None\<close>.\<close>

datatype 'a pyval = PyNone | PyVal 'a

section \<open>Strings: \<^verbatim>\<open>str.split\<close> and \<^verbatim>\<open>int\<close>\<close>

text \<open>
  Strings are lists of code points below 256. \<^verbatim>\<open>s.split(c)\<close> cuts at every occurrence of
  the separator, so the result has one more part than \<open>s\<close> has separators.
\<close>

fun split_on :: "char \<Rightarrow> string \<Rightarrow> string list" where
  "split_on c [] = [[]]"
| "split_on c (x # xs) =
     (if x = c then [] # split_on c xs
      else (case split_on c xs of
              p # ps \<Rightarrow> (x # p) # ps
            | [] \<Rightarrow> [[x]]))"

text \<open>
  \<^verbatim>\<open>int(b)\<close> on a string: surrounding white space is dropped, one sign is allowed, and
  what remains must be a non-empty run of decimal digits; anything else raises
  \<^verbatim>\<open>ValueError\<close>. (Python also accepts single underscores between digits; the only call
  site passes a part produced by splitting at underscores, which has none.)
\<close>

definition py_isspace :: "char \<Rightarrow> bool" where
  "py_isspace c =
     ((of_char c :: nat) \<in> {9, 10, 11, 12, 13, 28, 29, 30, 31, 32, 133, 160})"

definition py_strip :: "string \<Rightarrow> string" where
  "py_strip s = rev (dropWhile py_isspace (rev (dropWhile py_isspace s)))"

definition is_digit :: "char \<Rightarrow> bool" where
  "is_digit c = (48 \<le> (of_char c :: nat) \<and> (of_char c :: nat) \<le> 57)"

definition digits_value :: "string \<Rightarrow> int" where
  "digits_value ds = foldl (\<lambda>acc c. 10 * acc + (int (of_char c) - 48)) 0 ds"

definition py_int :: "string \<Rightarrow> error + int" where
  "py_int s =
     (let t = py_strip s;
          neg = (t \<noteq> [] \<and> hd t = CHR ''-'');
          ds = (if t \<noteq> [] \<and> (hd t = CHR ''-'' \<or> hd t = CHR ''+'') then tl t else t)
      in if ds \<noteq> [] \<and> list_all is_digit ds
         then Inr (if neg then - digits_value ds else digits_value ds)
         else Inl ValueError)"

text \<open>\<^verbatim>\<open>range(n)\<close> for a Python integer: empty when \<open>n \<le> 0\<close>.\<close>

definition py_range :: "int \<Rightarrow> nat list" where
  "py_range k = [0..<nat k]"

text \<open>
  \<^verbatim>\<open>xs[i]\<close> on a Python list: a negative index counts from the end, and an index outside
  \<open>[-len, len)\<close> raises \<^verbatim>\<open>IndexError\<close>. The function returns the position read.
\<close>

definition py_position :: "nat \<Rightarrow> int \<Rightarrow> error + nat" where
  "py_position len i =
     (let j = (if i < 0 then int len + i else i)
      in if 0 \<le> j \<and> j < int len then Inr (nat j) else Inl IndexError)"

section \<open>Spaces and the space descriptor\<close>

text \<open>
  The spaces of \<^verbatim>\<open>gym.spaces\<close> that the source tests for with \<^verbatim>\<open>isinstance\<close>, and one
  constructor for every other space class. A \<^verbatim>\<open>Box\<close> carries its shape and its bounds
  (\<open>'h\<close> is the type of a bounds array); \<^verbatim>\<open>Discrete(n)\<close> has the empty shape, and so does a
  \<^verbatim>\<open>Tuple\<close>.
\<close>

datatype 'h space =
    Box "nat list" 'h 'h
  | Discrete nat
  | Tuple "'h space list"
  | OtherSpace

fun is_Box :: "'h space \<Rightarrow> bool" where
  "is_Box (Box sh hi lo) = True"
| "is_Box s = False"

fun is_Discrete :: "'h space \<Rightarrow> bool" where
  "is_Discrete (Discrete k) = True"
| "is_Discrete s = False"

fun is_Tuple :: "'h space \<Rightarrow> bool" where
  "is_Tuple (Tuple xs) = True"
| "is_Tuple s = False"

fun space_shape :: "'h space \<Rightarrow> nat list" where
  "space_shape (Box sh hi lo) = sh"
| "space_shape s = []"

fun space_n :: "'h space \<Rightarrow> nat" where
  "space_n (Discrete k) = k"
| "space_n s = 0"

text \<open>
  The prototype environment handed to \<^verbatim>\<open>_initialize\<close>: its two spaces, the reward
  threshold of its registry entry (\<open>'b\<close>; Python's \<^verbatim>\<open>None\<close> when the domain gives none is a
  value of \<open>'b\<close>), and whether \<^verbatim>\<open>close()\<close> has been called on it.
\<close>

record ('h, 'b) prototype =
  observation_space :: "'h space"
  action_space :: "'h space"
  spec_reward_threshold :: 'b
  closed :: bool

text \<open>The attributes \<^verbatim>\<open>_initialize\<close> assigns on the manager.\<close>

record ('h, 'b) descriptor =
  s_dim :: nat
  obs_bounds :: "('h \<times> 'h) option"
  obs_type :: string
  visual_sources :: nat
  visual_resolution :: "nat list"
  action_type :: string
  is_continuous :: bool
  a_dim_or_list :: "nat list"
  reward_threshold :: 'b

definition proto_close :: "('h, 'b) prototype \<Rightarrow> ('h, 'b) prototype" where
  "proto_close env = env\<lparr>closed := True\<rparr>"

text \<open>
  Lines 82 to 96: the observation attributes. Only a \<^verbatim>\<open>Box\<close> or a \<^verbatim>\<open>Discrete\<close> gets
  here; any other class has no attribute \<^verbatim>\<open>n\<close>. The result is
  \<open>(s_dim, bounds, obs_type, visual_sources, visual_resolution)\<close>.
\<close>

definition process_observation ::
  "'h space \<Rightarrow> error + (nat \<times> ('h \<times> 'h) option \<times> string \<times> nat \<times> nat list)" where
  "process_observation ObsSpace =
     (let visual = (length (space_shape ObsSpace) = 3);
          ty = (if visual then ''visual'' else ''vector'');
          vs = (if visual then 1 else 0);
          vr = (if visual then space_shape ObsSpace else [])
      in case ObsSpace of
           Box sh hi lo \<Rightarrow> Inr (if length sh = 1 then hd sh else 0, Some (hi, lo), ty, vs, vr)
         | Discrete k \<Rightarrow> Inr (k, None, ty, vs, vr)
         | _ \<Rightarrow> Inl AttributeError)"

text \<open>
  Lines 99 to 113: the action attributes, as the \<^verbatim>\<open>if/elif/else\<close> chain of the source.
  The result is \<open>(action_type, _is_continuous, a_dim_or_list)\<close>.
\<close>

definition process_action :: "'h space \<Rightarrow> error + (string \<times> bool \<times> nat list)" where
  "process_action ActSpace =
     (case ActSpace of
        Box sh hi lo \<Rightarrow>
          (if length sh \<noteq> 1
           then Inl (AssertionError
             ''if action space is continuous, the shape length of action must equal to 1'')
           else Inr (''continuous'', True, sh))
      | Tuple slots \<Rightarrow>
          (if \<not> list_all is_Discrete slots
           then Inl (AssertionError
             ''if action space is Tuple, each item in it must have type Discrete'')
           else Inr (''Tuple(Discrete)'', False, map space_n slots))
      | Discrete k \<Rightarrow> Inr (''discrete'', False, [k])
      | OtherSpace \<Rightarrow> Inl AttributeError)"

text \<open>
  \<^verbatim>\<open>_initialize(self, env)\<close>, lines 79 to 116. The assertion of line 80 comes first and
  admits only \<^verbatim>\<open>Box\<close> and \<^verbatim>\<open>Discrete\<close> for either space. \<^verbatim>\<open>env.close()\<close> is the last
  statement and is not inside a \<^verbatim>\<open>try/finally\<close>, so it runs only when every statement
  before it has returned. The result pairs the outcome with the prototype after the call.
  The attributes assigned before a failing assertion are not part of the outcome:
  \<^verbatim>\<open>__init__\<close> lets the exception through and no manager object comes into being.
\<close>

definition initialize ::
  "('h, 'b) prototype \<Rightarrow> (error + ('h, 'b) descriptor) \<times> ('h, 'b) prototype" where
  "initialize env =
    (if \<not> ((is_Box (observation_space env) \<or> is_Discrete (observation_space env))
            \<and> (is_Box (action_space env) \<or> is_Discrete (action_space env)))
     then (Inl (AssertionError
             ''action_space and observation_space must be one of available_type''), env)
     else
       (case process_observation (observation_space env) of
          Inl e \<Rightarrow> (Inl e, env)
        | Inr (sd, bnds, ty, vs, vr) \<Rightarrow>
            (case process_action (action_space env) of
               Inl e \<Rightarrow> (Inl e, env)
             | Inr (aty, cont, dims) \<Rightarrow>
                 (Inr \<lparr> s_dim = sd, obs_bounds = bnds, obs_type = ty, visual_sources = vs,
                        visual_resolution = vr, action_type = aty, is_continuous = cont,
                        a_dim_or_list = dims,
                        reward_threshold = spec_reward_threshold env \<rparr>,
                  proto_close env))))"

section \<open>The task runner \<^verbatim>\<open>FakeMultiThread\<close>\<close>

text \<open>
  A thread object after \<^verbatim>\<open>start()\<close> and \<^verbatim>\<open>join()\<close>. Its attribute \<^verbatim>\<open>result\<close> exists only
  if \<^verbatim>\<open>run\<close> got to assign it: when \<^verbatim>\<open>func\<close> raises, the exception ends the thread (the
  interpreter prints it) and nothing is assigned. \<^verbatim>\<open>get_result\<close> reads the attribute
  inside \<^verbatim>\<open>try\<close>, and \<^verbatim>\<open>except Exception\<close> turns the \<^verbatim>\<open>AttributeError\<close> of a missing
  attribute into \<^verbatim>\<open>None\<close>.
\<close>

datatype 'x FakeMultiThread = Thread (result: "'x option")

definition run :: "error + 'x \<Rightarrow> 'x FakeMultiThread" where
  "run outcome = (case outcome of Inr r \<Rightarrow> Thread (Some r) | Inl e \<Rightarrow> Thread None)"

definition get_result :: "'x FakeMultiThread \<Rightarrow> 'x pyval" where
  "get_result th = (case result th of Some r \<Rightarrow> PyVal r | None \<Rightarrow> PyNone)"

text \<open>
  Starting and joining a pool of threads, each bound to a method of the environment in one
  slot. Every task reads and writes only the environment of its own slot, so for distinct
  slots the tasks commute and the joined pool is the one obtained by running them in list
  order. The slots have been looked up (\<^verbatim>\<open>self.envs[i]\<close>) when the pool was built.
\<close>

fun run_threads ::
  "(nat \<times> ('e \<Rightarrow> 'e \<times> (error + 'x))) list \<Rightarrow> 'e list \<Rightarrow> 'e list \<times> 'x FakeMultiThread list" where
  "run_threads [] es = (es, [])"
| "run_threads ((i, f) # ts) es =
     (case f (es ! i) of
        (e', outcome) \<Rightarrow>
          (case run_threads ts (es[i := e']) of
             (es', pool) \<Rightarrow> (es', run outcome # pool)))"

section \<open>Action batches\<close>

text \<open>
  A numpy array is its shape and its items in row-major order. \<^verbatim>\<open>a.reshape(-1,)\<close> keeps
  the items in one axis. \<^verbatim>\<open>a.reshape(n, -1)\<close> needs \<open>n\<close> positive and dividing the number
  of items, and raises \<^verbatim>\<open>ValueError\<close> otherwise; \<^verbatim>\<open>tolist()\<close> of the result is the list
  of its rows. \<^verbatim>\<open>a[i]\<close> for \<open>i\<close> from a \<^verbatim>\<open>range\<close> selects along the first axis and raises
  \<^verbatim>\<open>IndexError\<close> when the array has no axis or \<open>i\<close> is beyond it.
\<close>

record 'a ndarray =
  shape :: "nat list"
  items :: "'a list"

datatype 'a action = ArrayAction "'a ndarray" | ListAction "'a list"

datatype 'a actions = Array "'a ndarray" | Rows "'a list list"

definition reshape_flat :: "'a ndarray \<Rightarrow> 'a ndarray" where
  "reshape_flat a = \<lparr> shape = [length (items a)], items = items a \<rparr>"

fun rows_of :: "nat \<Rightarrow> nat \<Rightarrow> 'a list \<Rightarrow> 'a list list" where
  "rows_of 0 w xs = []"
| "rows_of (Suc k) w xs = take w xs # rows_of k w (drop w xs)"

definition reshape_rows_tolist :: "int \<Rightarrow> 'a ndarray \<Rightarrow> error + 'a list list" where
  "reshape_rows_tolist k a =
     (if 0 < k \<and> length (items a) mod nat k = 0
      then Inr (rows_of (nat k) (length (items a) div nat k) (items a))
      else Inl ValueError)"

definition getitem :: "'a actions \<Rightarrow> nat \<Rightarrow> error + 'a action" where
  "getitem acts i =
     (case acts of
        Array a \<Rightarrow>
          (case shape a of
             [] \<Rightarrow> Inl IndexError
           | d # rest \<Rightarrow>
               if i < d
               then Inr (ArrayAction \<lparr> shape = rest,
                      items = take (prod_list rest) (drop (i * prod_list rest) (items a)) \<rparr>)
               else Inl IndexError)
      | Rows rs \<Rightarrow> (if i < length rs then Inr (ListAction (rs ! i)) else Inl IndexError))"

section \<open>The environment capability set\<close>

text \<open>
  The wrapper classes of \<^verbatim>\<open>gym_wrapper/wrappers.py\<close> are outside the embedded files, so
  the methods the manager calls on an environment are parameters: each takes the
  environment's state \<open>'e\<close> and returns the state after the call with the outcome.
  \<open>'o\<close>, \<open>'r\<close> and \<open>'i\<close> are the types of observations, rewards and info payloads.
\<close>

record ('e, 'a, 'o, 'r, 'i) env_class =
  env_reset :: "'e \<Rightarrow> 'e \<times> (error + 'o)"
  env_step :: "'e \<Rightarrow> 'a action \<Rightarrow> 'e \<times> (error + 'o \<times> 'r \<times> bool \<times> 'i)"
  env_render :: "'e \<Rightarrow> 'e \<times> (error + unit)"

section \<open>The manager \<^verbatim>\<open>gym_envs\<close>\<close>

text \<open>
  \<^verbatim>\<open>dones_index\<close> does not exist before the first \<^verbatim>\<open>reset\<close> or \<^verbatim>\<open>step\<close>; \<^verbatim>\<open>reset\<close>
  assigns the Python list \<^verbatim>\<open>[]\<close> and \<^verbatim>\<open>step\<close> assigns the numpy array
  \<^verbatim>\<open>np.where(done)[0]\<close>. The two classes differ in what \<^verbatim>\<open>partial_reset\<close> can do with
  them, so the model keeps them apart. \<^verbatim>\<open>render_index\<close> exists only once
  \<^verbatim>\<open>_get_render_index\<close> has assigned it.
\<close>

datatype dones = Unset | PyList "nat list" | NdArray "nat list"

record ('e, 'h, 'b) gym_envs =
  n :: int
  desc :: "('h, 'b) descriptor"
  envs :: "'e list"
  render_index :: "int list option"
  dones_index :: dones

text \<open>
  The loop that builds a pool for the slots \<open>slots\<close> looks every slot up in
  \<^verbatim>\<open>self.envs\<close> before any thread is started, so a slot out of range raises
  \<^verbatim>\<open>IndexError\<close> with no environment touched.
\<close>

definition reset_slots ::
  "('e, 'a, 'o, 'r, 'i) env_class \<Rightarrow> nat list \<Rightarrow> 'e list
     \<Rightarrow> error + ('e list \<times> 'o FakeMultiThread list)" where
  "reset_slots C slots es =
     (if \<not> list_all (\<lambda>i. i < length es) slots then Inl IndexError
      else Inr (run_threads (map (\<lambda>i. (i, env_reset C)) slots) es))"

text \<open>
  \<^verbatim>\<open>reset(self)\<close>, lines 165 to 176. \<^verbatim>\<open>np.asarray\<close> of the results is their list: where
  a slot holds \<^verbatim>\<open>None\<close> beside observations, numpy builds an array of objects with the
  same entries.
\<close>

definition reset ::
  "('e, 'a, 'o, 'r, 'i) env_class \<Rightarrow> ('e, 'h, 'b) gym_envs
     \<Rightarrow> ('e, 'h, 'b) gym_envs \<times> (error + 'o pyval list)" where
  "reset C self =
     (let self1 = self\<lparr>dones_index := PyList []\<rparr> in
      case reset_slots C (py_range (n self1)) (envs self1) of
        Inl e \<Rightarrow> (self1, Inl e)
      | Inr (es, threadpool) \<Rightarrow> (self1\<lparr>envs := es\<rparr>, Inr (map get_result threadpool)))"

text \<open>
  \<^verbatim>\<open>partial_reset(self)\<close>, lines 197 to 207. The loop of line 199 iterates over
  \<^verbatim>\<open>dones_index\<close>, whatever sequence it is; line 206 reads \<^verbatim>\<open>self.dones_index.shape\<close>,
  which only a numpy array has. Nothing in the method assigns \<^verbatim>\<open>dones_index\<close>.
\<close>

definition partial_reset ::
  "('e, 'a, 'o, 'r, 'i) env_class \<Rightarrow> ('e, 'h, 'b) gym_envs
     \<Rightarrow> ('e, 'h, 'b) gym_envs \<times> (error + 'o pyval list)" where
  "partial_reset C self =
     (case dones_index self of
        Unset \<Rightarrow> (self, Inl AttributeError)
      | PyList ds \<Rightarrow>
          (case reset_slots C ds (envs self) of
             Inl e \<Rightarrow> (self, Inl e)
           | Inr (es, threadpool) \<Rightarrow> (self\<lparr>envs := es\<rparr>, Inl AttributeError))
      | NdArray ds \<Rightarrow>
          (case reset_slots C ds (envs self) of
             Inl e \<Rightarrow> (self, Inl e)
           | Inr (es, threadpool) \<Rightarrow> (self\<lparr>envs := es\<rparr>, Inr (map get_result threadpool))))"

text \<open>
  Lines 179 to 182 of \<^verbatim>\<open>step\<close>: the action batch is reshaped by \<^verbatim>\<open>action_type\<close>;
  a continuous batch is left as it is.
\<close>

definition prepare_actions :: "string \<Rightarrow> int \<Rightarrow> 'a ndarray \<Rightarrow> error + 'a actions" where
  "prepare_actions aty k a =
     (if aty = ''discrete'' then Inr (Array (reshape_flat a))
      else if aty = ''Tuple(Discrete)'' then
        (case reshape_rows_tolist k a of Inl e \<Rightarrow> Inl e | Inr rs \<Rightarrow> Inr (Rows rs))
      else Inr (Array a))"

text \<open>
  Lines 184 to 186: for every slot of \<^verbatim>\<open>range(self.n)\<close> the environment and the action
  slice are looked up, in this order, before any thread is started.
\<close>

fun step_tasks ::
  "('e, 'a, 'o, 'r, 'i) env_class \<Rightarrow> nat \<Rightarrow> 'a actions \<Rightarrow> nat list
     \<Rightarrow> error + (nat \<times> ('e \<Rightarrow> 'e \<times> (error + 'o \<times> 'r \<times> bool \<times> 'i))) list" where
  "step_tasks C len acts [] = Inr []"
| "step_tasks C len acts (i # slots) =
     (if \<not> i < len then Inl IndexError
      else case getitem acts i of
             Inl e \<Rightarrow> Inl e
           | Inr a \<Rightarrow>
               (case step_tasks C len acts slots of
                  Inl e \<Rightarrow> Inl e
                | Inr ts \<Rightarrow> Inr ((i, \<lambda>e. env_step C e a) # ts)))"

text \<open>
  Line 193, \<^verbatim>\<open>zip(*results)\<close> unpacked into four names: \<^verbatim>\<open>zip\<close> raises \<^verbatim>\<open>TypeError\<close> on
  an argument that is \<^verbatim>\<open>None\<close>; with no argument at all it yields nothing and the
  unpacking raises \<^verbatim>\<open>ValueError\<close>; otherwise the four channels come out in slot order.
\<close>

fun values_of :: "'x pyval list \<Rightarrow> 'x list option" where
  "values_of [] = Some []"
| "values_of (PyNone # rs) = None"
| "values_of (PyVal v # rs) = map_option ((#) v) (values_of rs)"

definition zip_results ::
  "('o \<times> 'r \<times> bool \<times> 'i) pyval list \<Rightarrow> error + ('o list \<times> 'r list \<times> bool list \<times> 'i list)" where
  "zip_results results =
     (case values_of results of
        None \<Rightarrow> Inl TypeError
      | Some [] \<Rightarrow> Inl ValueError
      | Some ts \<Rightarrow> Inr (map fst ts, map (fst \<circ> snd) ts, map (fst \<circ> snd \<circ> snd) ts,
                         map (snd \<circ> snd \<circ> snd) ts))"

text \<open>\<^verbatim>\<open>np.where(done)[0]\<close>: the positions of the true flags, scanning from position 0.\<close>

fun where_from :: "nat \<Rightarrow> bool list \<Rightarrow> nat list" where
  "where_from k [] = []"
| "where_from k (d # ds) = (if d then k # where_from (Suc k) ds else where_from (Suc k) ds)"

definition np_where :: "bool list \<Rightarrow> nat list" where
  "np_where flags = where_from 0 flags"

text \<open>
  \<^verbatim>\<open>step(self, actions)\<close>, lines 178 to 195. \<^verbatim>\<open>dones_index\<close> is assigned on line 194
  only, after the unpacking of line 193 has succeeded.
\<close>

definition step ::
  "('e, 'a, 'o, 'r, 'i) env_class \<Rightarrow> ('e, 'h, 'b) gym_envs \<Rightarrow> 'a ndarray
     \<Rightarrow> ('e, 'h, 'b) gym_envs \<times> (error + 'o list \<times> 'r list \<times> bool list \<times> 'i list)" where
  "step C self actions =
     (case prepare_actions (action_type (desc self)) (n self) actions of
        Inl e \<Rightarrow> (self, Inl e)
      | Inr acts \<Rightarrow>
          (case step_tasks C (length (envs self)) acts (py_range (n self)) of
             Inl e \<Rightarrow> (self, Inl e)
           | Inr tasks \<Rightarrow>
               (case run_threads tasks (envs self) of
                  (es, threadpool) \<Rightarrow>
                    (case zip_results (map get_result threadpool) of
                       Inl e \<Rightarrow> (self\<lparr>envs := es\<rparr>, Inl e)
                     | Inr (obs, reward, dn, info) \<Rightarrow>
                         (self\<lparr>envs := es, dones_index := NdArray (np_where dn)\<rparr>,
                          Inr (obs, reward, dn, info))))))"

text \<open>
  \<^verbatim>\<open>render(self)\<close>, lines 147 to 151: the list comprehension indexes \<^verbatim>\<open>self.envs\<close> with
  every entry of \<^verbatim>\<open>render_index\<close> in turn, by Python's list indexing.
\<close>

fun render_all ::
  "('e, 'a, 'o, 'r, 'i) env_class \<Rightarrow> int list \<Rightarrow> 'e list \<Rightarrow> 'e list \<times> (error + unit)" where
  "render_all C [] es = (es, Inr ())"
| "render_all C (i # idx) es =
     (case py_position (length es) i of
        Inl e \<Rightarrow> (es, Inl e)
      | Inr k \<Rightarrow>
          (case env_render C (es ! k) of
             (e', Inl err) \<Rightarrow> (es[k := e'], Inl err)
           | (e', Inr u) \<Rightarrow> render_all C idx (es[k := e'])))"

definition render ::
  "('e, 'a, 'o, 'r, 'i) env_class \<Rightarrow> ('e, 'h, 'b) gym_envs
     \<Rightarrow> ('e, 'h, 'b) gym_envs \<times> (error + unit)" where
  "render C self =
     (case render_index self of
        None \<Rightarrow> (self, Inl AttributeError)
      | Some idx \<Rightarrow> (case render_all C idx (envs self) of
                      (es, outcome) \<Rightarrow> (self\<lparr>envs := es\<rparr>, outcome)))"

section \<open>Render targets\<close>

text \<open>
  The render-mode specifier: a list (whose items are integers or not), a string, or a value
  of any other type.
\<close>

datatype item = IntItem int | OtherItem

fun is_int :: "item \<Rightarrow> bool" where
  "is_int (IntItem i) = True"
| "is_int OtherItem = False"

datatype render_mode = ModeList "item list" | ModeStr string | ModeOther

text \<open>
  \<^verbatim>\<open>_get_render_index(self, render_mode)\<close>, lines 122 to 145. \<open>sample\<close> stands for
  \<^verbatim>\<open>random.sample\<close>.

  In the list branch, line 129 evaluates \<^verbatim>\<open>min(index)\<close>. The name \<^verbatim>\<open>index\<close> is bound
  neither in the method (its names are \<^verbatim>\<open>self\<close> and \<^verbatim>\<open>render_mode\<close>; the \<^verbatim>\<open>i\<close> of the
  comprehension is local to it) nor in the module (which binds \<^verbatim>\<open>gym\<close>, \<^verbatim>\<open>threading\<close>,
  \<^verbatim>\<open>np\<close>, the space and wrapper classes and the two classes it defines) nor among the
  builtins, so the lookup raises \<^verbatim>\<open>NameError\<close> and lines 130 and 131 are never reached.

  In the string branch, the \<^verbatim>\<open>if\<close> of line 141 has no \<^verbatim>\<open>else\<close>: the \<^verbatim>\<open>else\<close> of line 144
  belongs to the \<^verbatim>\<open>if/elif\<close> on the type of \<^verbatim>\<open>render_mode\<close>, which the assertion of
  line 126 has already decided. When the condition of line 141 is false the method
  returns with \<^verbatim>\<open>render_index\<close> as it was. \<^verbatim>\<open>and\<close> evaluates \<^verbatim>\<open>int(b)\<close> only when
  \<^verbatim>\<open>a == 'random'\<close>.
\<close>

definition get_render_index ::
  "(int list \<Rightarrow> int \<Rightarrow> int list) \<Rightarrow> ('e, 'h, 'b) gym_envs \<Rightarrow> render_mode
     \<Rightarrow> ('e, 'h, 'b) gym_envs \<times> (error + unit)" where
  "get_render_index sample self mode =
     (case mode of
        ModeOther \<Rightarrow>
          (self, Inl (AssertionError ''render_mode must have type of str or list.''))
      | ModeList xs \<Rightarrow>
          (if \<not> list_all is_int xs
           then (self, Inl (AssertionError ''items in render list must have type of int''))
           else (self, Inl (NameError ''index'')))
      | ModeStr s \<Rightarrow>
          (if s = ''first'' then (self\<lparr>render_index := Some [0]\<rparr>, Inr ())
           else if s = ''last'' then (self\<lparr>render_index := Some [- 1]\<rparr>, Inr ())
           else if s = ''all'' then
             (self\<lparr>render_index := Some (map int (py_range (n self)))\<rparr>, Inr ())
           else
             (case split_on CHR ''_'' s of
                [a, b] \<Rightarrow>
                  (if a = ''random'' then
                     (case py_int b of
                        Inl e \<Rightarrow> (self, Inl e)
                      | Inr k \<Rightarrow>
                          (if 0 < k \<and> k \<le> n self
                           then (self\<lparr>render_index :=
                                   Some (sample (map int (py_range (n self))) k)\<rparr>, Inr ())
                           else (self, Inr ())))
                   else (self, Inr ()))
              | _ \<Rightarrow> (self, Inl ValueError))))"

section \<open>The guard of \<^verbatim>\<open>DQN.__init__\<close>\<close>

text \<open>
  Line 28 of \<^verbatim>\<open>dqn.py\<close> is the first statement of the constructor:
  \<^verbatim>\<open>assert not is_continuous\<close>. Everything after it (the base-class constructor and the
  networks, which are outside the embedded files) is the parameter \<open>rest\<close>: the outcome
  of lines 29 to 55.
\<close>

definition DQN_init :: "bool \<Rightarrow> error + 'agent \<Rightarrow> error + 'agent" where
  "DQN_init is_cont rest =
     (if is_cont then Inl (AssertionError ''dqn only support discrete action space'')
      else rest)"

section \<open>A stub environment\<close>

text \<open>
  A deterministic environment for concrete runs: it counts the steps since its last reset
  and its resets, ends every episode at the second step, and raises from \<^verbatim>\<open>reset\<close> and
  \<^verbatim>\<open>step\<close> when it is broken.
\<close>

datatype stub = Stub (steps: nat) (resets: nat) (broken: bool)

definition stub_class :: "(stub, nat, nat, int, unit) env_class" where
  "stub_class =
     \<lparr> env_reset = (\<lambda>e. if broken e then (e, Inl (Exception ''reset failed''))
                         else (Stub 0 (Suc (resets e)) False, Inr 0)),
       env_step = (\<lambda>e a. if broken e then (e, Inl (Exception ''step failed''))
                          else (Stub (Suc (steps e)) (resets e) False,
                                Inr (Suc (steps e), 1, 2 \<le> Suc (steps e), ()))),
       env_render = (\<lambda>e. (e, Inr ())) \<rparr>"

definition stub_prototype :: "(unit, int) prototype" where
  "stub_prototype =
     \<lparr> observation_space = Box [4] () (), action_space = Discrete 2,
       spec_reward_threshold = 195, closed = False \<rparr>"

definition stub_desc :: "(unit, int) descriptor" where
  "stub_desc =
     \<lparr> s_dim = 4, obs_bounds = Some ((), ()), obs_type = ''vector'', visual_sources = 0,
       visual_resolution = [], action_type = ''discrete'', is_continuous = False,
       a_dim_or_list = [2], reward_threshold = 195 \<rparr>"

definition stub_manager :: "stub list \<Rightarrow> dones \<Rightarrow> (stub, unit, int) gym_envs" where
  "stub_manager es d =
     \<lparr> n = int (length es), desc = stub_desc, envs = es, render_index = None,
       dones_index = d \<rparr>"

section \<open>Concrete runs\<close>

text \<open>
  Two stub environments, the first one step away from the end of its episode; a batch of two
  discrete actions; the manager after one \<^verbatim>\<open>step\<close> on them; a manager whose second
  environment is broken; a deterministic stand-in for \<^verbatim>\<open>random.sample\<close>; and prototypes
  with a tuple action space and with a rank-2 continuous action space.
\<close>

definition stub_actions :: "nat ndarray" where
  "stub_actions = \<lparr> shape = [2], items = [0, 0] \<rparr>"

definition scenario_start :: "(stub, unit, int) gym_envs" where
  "scenario_start = stub_manager [Stub 1 1 False, Stub 0 1 False] Unset"

definition scenario_stepped :: "(stub, unit, int) gym_envs" where
  "scenario_stepped =
     \<lparr> n = 2, desc = stub_desc, envs = [Stub 2 1 False, Stub 1 1 False],
       render_index = None, dones_index = NdArray [0] \<rparr>"

definition scenario_broken :: "(stub, unit, int) gym_envs" where
  "scenario_broken = stub_manager [Stub 0 0 False, Stub 0 0 True] Unset"

definition first_k :: "int list \<Rightarrow> int \<Rightarrow> int list" where
  "first_k population k = take (nat k) population"

definition tuple_prototype :: "(unit, int) prototype" where
  "tuple_prototype = stub_prototype\<lparr>action_space := Tuple [Discrete 2, Discrete 3]\<rparr>"

definition matrix_prototype :: "(unit, int) prototype" where
  "matrix_prototype = stub_prototype\<lparr>action_space := Box [2, 2] () ()\<rparr>"

text \<open>The manager \<open>scenario_stepped\<close> after one \<^verbatim>\<open>partial_reset\<close>.\<close>

definition scenario_refreshed :: "(stub, unit, int) gym_envs" where
  "scenario_refreshed = scenario_stepped\<lparr>envs := [Stub 0 2 False, Stub 1 1 False]\<rparr>"

section \<open>Facts about the runner and the result channels\<close>

lemma run_threads_length_envs: "length (fst (run_threads ts es)) = length es"
proof (induction ts arbitrary: es)
  case Nil
  then show ?case by simp
next
  case (Cons t ts)
  obtain i f where t: "t = (i, f)" by (cases t)
  obtain e' outcome where f: "f (es ! i) = (e', outcome)" by (cases "f (es ! i)")
  obtain es' pool where r: "run_threads ts (es[i := e']) = (es', pool)"
    by (cases "run_threads ts (es[i := e'])")
  show ?case using Cons.IH [of "es[i := e']"] t f r by simp
qed

lemma run_threads_length_pool: "length (snd (run_threads ts es)) = length ts"
proof (induction ts arbitrary: es)
  case Nil
  then show ?case by simp
next
  case (Cons t ts)
  obtain i f where t: "t = (i, f)" by (cases t)
  obtain e' outcome where f: "f (es ! i) = (e', outcome)" by (cases "f (es ! i)")
  obtain es' pool where r: "run_threads ts (es[i := e']) = (es', pool)"
    by (cases "run_threads ts (es[i := e'])")
  show ?case using Cons.IH [of "es[i := e']"] t f r by simp
qed

lemma run_threads_pool:
  "distinct (map fst ts) \<Longrightarrow> k < length ts \<Longrightarrow>
     snd (run_threads ts es) ! k = run (snd (snd (ts ! k) (es ! fst (ts ! k))))"
proof (induction ts arbitrary: es k)
  case Nil
  then show ?case by simp
next
  case (Cons t ts)
  obtain i f where t: "t = (i, f)" by (cases t)
  obtain e' outcome where f: "f (es ! i) = (e', outcome)" by (cases "f (es ! i)")
  obtain es' pool where r: "run_threads ts (es[i := e']) = (es', pool)"
    by (cases "run_threads ts (es[i := e'])")
  show ?case
  proof (cases k)
    case 0
    then show ?thesis using t f r by simp
  next
    case (Suc j)
    from Cons.prems t have d: "distinct (map fst ts)" and ni: "i \<notin> fst ` set ts" and j: "j < length ts"
      using Suc by auto
    from j ni have "fst (ts ! j) \<noteq> i"
      by (metis image_eqI nth_mem)
    then have "es[i := e'] ! fst (ts ! j) = es ! fst (ts ! j)" by simp
    with Cons.IH [OF d j, of "es[i := e']"] show ?thesis
      using t f r Suc by simp
  qed
qed

lemma run_threads_envs:
  "distinct (map fst ts) \<Longrightarrow> j < length es \<Longrightarrow>
     fst (run_threads ts es) ! j =
       (case map_of ts j of None \<Rightarrow> es ! j | Some f \<Rightarrow> fst (f (es ! j)))"
proof (induction ts arbitrary: es)
  case Nil
  then show ?case by simp
next
  case (Cons t ts)
  obtain i f where t: "t = (i, f)" by (cases t)
  obtain e' outcome where f: "f (es ! i) = (e', outcome)" by (cases "f (es ! i)")
  obtain es' pool where r: "run_threads ts (es[i := e']) = (es', pool)"
    by (cases "run_threads ts (es[i := e'])")
  from Cons.prems t have d: "distinct (map fst ts)" and ni: "i \<notin> fst ` set ts" by auto
  from ni have none: "map_of ts i = None" by (simp add: map_of_eq_None_iff)
  have len: "j < length (es[i := e'])" using Cons.prems by simp
  show ?case
    using Cons.IH [OF d len] t f r none Cons.prems(2)
    by (cases "j = i") (auto split: option.splits)
qed

lemma where_from_mem:
  "x \<in> set (where_from k ds) \<longleftrightarrow> k \<le> x \<and> x - k < length ds \<and> ds ! (x - k)"
proof (induction ds arbitrary: k)
  case Nil
  then show ?case by simp
next
  case (Cons d ds)
  show ?case
  proof (cases "x \<le> k")
    case True
    then show ?thesis using Cons.IH [of "Suc k"] by auto
  next
    case False
    then have "x - k = Suc (x - Suc k)" by simp
    then show ?thesis using Cons.IH [of "Suc k"] False by auto
  qed
qed

lemma where_from_sorted: "sorted_wrt (<) (where_from k ds)"
proof (induction ds arbitrary: k)
  case Nil
  then show ?case by simp
next
  case (Cons d ds)
  have "\<forall>x \<in> set (where_from (Suc k) ds). k < x"
    by (simp add: where_from_mem)
  then show ?case using Cons.IH [of "Suc k"] by simp
qed

lemma values_of_length: "values_of rs = Some ts \<Longrightarrow> length ts = length rs"
proof (induction rs arbitrary: ts)
  case Nil
  then show ?case by simp
next
  case (Cons r rs)
  then show ?case by (cases r) auto
qed

lemma values_of_None: "PyNone \<in> set rs \<Longrightarrow> values_of rs = None"
proof (induction rs)
  case Nil
  then show ?case by simp
next
  case (Cons r rs)
  then show ?case by (cases r) auto
qed

lemma step_tasks_slots: "step_tasks C len acts slots = Inr ts \<Longrightarrow> map fst ts = slots"
proof (induction slots arbitrary: ts)
  case Nil
  then show ?case by simp
next
  case (Cons i slots)
  then show ?case by (auto split: if_splits sum.splits)
qed

lemma step_tasks_nth:
  "step_tasks C len acts slots = Inr ts \<Longrightarrow> k < length slots \<Longrightarrow>
     \<exists>a. getitem acts (slots ! k) = Inr a \<and> snd (ts ! k) = (\<lambda>e. env_step C e a)"
proof (induction slots arbitrary: ts k)
  case Nil
  then show ?case by simp
next
  case (Cons i slots)
  then show ?case
    by (cases k) (auto split: if_splits sum.splits)
qed

lemma np_where_set: "set (np_where flags) = {i. i < length flags \<and> flags ! i}"
  by (auto simp: np_where_def where_from_mem)

lemma zip_results_Inr:
  "zip_results rs = Inr (obs, reward, dn, info) \<Longrightarrow> length dn = length rs"
  by (auto simp: zip_results_def split: option.splits list.splits dest: values_of_length)

lemma step_ignores_dones_index:
  "step C (self\<lparr>dones_index := d\<rparr>) actions =
     (case step C self actions of
        (s', Inr r) \<Rightarrow> (s', Inr r)
      | (s', Inl e) \<Rightarrow> (s'\<lparr>dones_index := d\<rparr>, Inl e))"
  by (simp add: step_def split: sum.splits prod.splits)

lemma map_of_slots:
  "map_of (map (\<lambda>i. (i, f)) ds) j = (if j \<in> set ds then Some f else None)"
  by (induction ds) auto

lemma getitem_error: "getitem acts i = Inl e \<Longrightarrow> e = IndexError"
  by (auto simp: getitem_def split: actions.splits list.splits if_splits)

lemma step_tasks_error: "step_tasks C len acts slots = Inl e \<Longrightarrow> e = IndexError"
proof (induction slots)
  case Nil
  then show ?case by simp
next
  case (Cons i slots)
  then show ?case
    by (auto split: if_splits sum.splits dest: getitem_error)
qed

lemma reset_slots_Inr:
  "reset_slots C ds es = Inr (es', pool) \<Longrightarrow>
     list_all (\<lambda>i. i < length es) ds \<and> length es' = length es \<and> length pool = length ds
     \<and> run_threads (map (\<lambda>i. (i, env_reset C)) ds) es = (es', pool)"
  using run_threads_length_envs [of "map (\<lambda>i. (i, env_reset C)) ds" es]
        run_threads_length_pool [of "map (\<lambda>i. (i, env_reset C)) ds" es]
  by (auto simp: reset_slots_def split: if_splits)

lemma reset_pool_nth:
  assumes "reset_slots C (py_range k) es = Inr (es', pool)" and "j < nat k"
  shows "pool ! j = run (snd (env_reset C (es ! j)))"
proof -
  let ?ts = "map (\<lambda>i. (i, env_reset C)) (py_range k)"
  from reset_slots_Inr [OF assms(1)] have run: "run_threads ?ts es = (es', pool)"
    by simp
  have d: "distinct (map fst ?ts)"
    by (simp add: comp_def py_range_def)
  have j: "j < length ?ts"
    using assms(2) by (simp add: py_range_def)
  from run_threads_pool [OF d j, of es] run show ?thesis
    using assms(2) by (simp add: py_range_def)
qed

lemma values_of_nth:
  "values_of rs = Some ts \<Longrightarrow> i < length rs \<Longrightarrow> rs ! i = PyVal (ts ! i)"
proof (induction rs arbitrary: ts i)
  case Nil
  then show ?case by simp
next
  case (Cons r rs)
  then show ?case
    by (cases r; cases i) auto
qed

lemma get_result_run: "get_result (run outcome) = PyVal v \<Longrightarrow> outcome = Inr v"
  by (cases outcome) (simp_all add: get_result_def run_def)

lemma zip_results_done:
  "zip_results rs = Inr (obs, reward, dn, info) \<Longrightarrow> i < length rs \<Longrightarrow>
     \<exists>ob r inf. rs ! i = PyVal (ob, r, dn ! i, inf)"
proof -
  assume z: "zip_results rs = Inr (obs, reward, dn, info)" and i: "i < length rs"
  from z obtain ts where ts: "values_of rs = Some ts" and dn: "dn = map (fst \<circ> snd \<circ> snd) ts"
    by (auto simp: zip_results_def split: option.splits list.splits)
  from values_of_length [OF ts] i have "i < length ts" by simp
  with dn have "dn ! i = fst (snd (snd (ts ! i)))" by simp
  moreover from values_of_nth [OF ts i] have "rs ! i = PyVal (ts ! i)" .
  ultimately show ?thesis
    by (cases "ts ! i") auto
qed

lemma step_flags_by_slot:
  assumes "step C self actions = (self', Inr (obs, reward, dn, info))" and "i < nat (n self)"
  shows "\<exists>acts a ob r inf.
           prepare_actions (action_type (desc self)) (n self) actions = Inr acts
         \<and> getitem acts i = Inr a
         \<and> snd (env_step C (envs self ! i) a) = Inr (ob, r, dn ! i, inf)"
proof -
  from assms(1) obtain acts tasks es threadpool where
    prep: "prepare_actions (action_type (desc self)) (n self) actions = Inr acts"
    and tasks: "step_tasks C (length (envs self)) acts (py_range (n self)) = Inr tasks"
    and run: "run_threads tasks (envs self) = (es, threadpool)"
    and zip: "zip_results (map get_result threadpool) = Inr (obs, reward, dn, info)"
    by (auto simp: step_def split: sum.splits prod.splits)
  have slots: "map fst tasks = py_range (n self)"
    by (rule step_tasks_slots [OF tasks])
  then have d: "distinct (map fst tasks)"
    by (simp add: py_range_def)
  from slots have len: "length tasks = nat (n self)"
    by (metis length_map length_upt py_range_def diff_zero)
  with assms(2) have i: "i < length tasks" by simp
  have ith: "py_range (n self) ! i = i"
    using assms(2) by (simp add: py_range_def)
  from assms(2) have "i < length (py_range (n self))"
    by (simp add: py_range_def)
  from step_tasks_nth [OF tasks this] ith obtain a where
    act: "getitem acts i = Inr a" and f: "snd (tasks ! i) = (\<lambda>e. env_step C e a)"
    by auto
  have fst_i: "fst (tasks ! i) = i"
    using slots ith i by (metis nth_map)
  from run_threads_pool [OF d i, of "envs self"] run f fst_i
  have pool_i: "threadpool ! i = run (snd (env_step C (envs self ! i) a))"
    by simp
  have len_pool: "length threadpool = length tasks"
    using run_threads_length_pool [of tasks "envs self"] run by simp
  with i have "i < length (map get_result threadpool)" by simp
  from zip_results_done [OF zip this] obtain ob r inf where
    "map get_result threadpool ! i = PyVal (ob, r, dn ! i, inf)"
    by blast
  with i len_pool pool_i
  have "get_result (run (snd (env_step C (envs self ! i) a))) = PyVal (ob, r, dn ! i, inf)"
    by simp
  then have "snd (env_step C (envs self ! i) a) = Inr (ob, r, dn ! i, inf)"
    by (rule get_result_run)
  with prep act show ?thesis by blast
qed

lemma initialize_stub: "initialize stub_prototype = (Inr stub_desc, proto_close stub_prototype)"
  by (simp add: initialize_def stub_prototype_def stub_desc_def process_observation_def
      process_action_def)

section \<open>A task that raises\<close>

text \<open>
  Claim C1, amended. When the task of slot \<open>i\<close> raises, \<^verbatim>\<open>get_result\<close> puts \<^verbatim>\<open>None\<close>
  in its place. \<^verbatim>\<open>reset()\<close> then returns a batch of \<open>N\<close> entries whose entry \<open>i\<close> is
  \<^verbatim>\<open>None\<close>: the call does not fail. \<^verbatim>\<open>step()\<close> fails, with the \<^verbatim>\<open>TypeError\<close> of
  unpacking the results (or with the \<^verbatim>\<open>IndexError\<close> of an action slice out of range),
  and leaves \<^verbatim>\<open>dones_index\<close> as it was. The manager holds an environment for every slot
  of \<^verbatim>\<open>range(self.n)\<close>, as \<^verbatim>\<open>__init__\<close> builds it.
\<close>

theorem failed_task_yields_None:
  assumes "nat (n self) \<le> length (envs self)" and "i < nat (n self)"
  shows "(snd (env_reset C (envs self ! i)) = Inl e \<longrightarrow>
            (\<exists>obs. snd (reset C self) = Inr obs \<and> length obs = nat (n self)
                    \<and> obs ! i = PyNone))
       \<and> (prepare_actions (action_type (desc self)) (n self) actions = Inr acts
            \<and> getitem acts i = Inr a
            \<and> snd (env_step C (envs self ! i) a) = Inl e \<longrightarrow>
            (snd (step C self actions) = Inl TypeError
               \<or> snd (step C self actions) = Inl IndexError)
            \<and> dones_index (fst (step C self actions)) = dones_index self)"
proof -
  have on_reset: "\<exists>obs. snd (reset C self) = Inr obs \<and> length obs = nat (n self)
      \<and> obs ! i = PyNone"
    if raised: "snd (env_reset C (envs self ! i)) = Inl e"
  proof -
    let ?ts = "map (\<lambda>i. (i, env_reset C)) (py_range (n self))"
    obtain es pool where run: "run_threads ?ts (envs self) = (es, pool)"
      by (cases "run_threads ?ts (envs self)")
    from assms(1) have "list_all (\<lambda>i. i < length (envs self)) (py_range (n self))"
      by (simp add: py_range_def list_all_iff)
    then have rs: "reset_slots C (py_range (n self)) (envs self) = Inr (es, pool)"
      by (simp add: reset_slots_def run)
    from reset_slots_Inr [OF rs] have len: "length pool = nat (n self)"
      by (simp add: py_range_def)
    from reset_pool_nth [OF rs assms(2)] raised have "pool ! i = Thread None"
      by (simp add: run_def)
    then have "map get_result pool ! i = PyNone"
      using len assms(2) by (simp add: get_result_def)
    moreover have "snd (reset C self) = Inr (map get_result pool)"
      by (simp add: reset_def rs)
    ultimately show ?thesis using len by simp
  qed
  have on_step: "(snd (step C self actions) = Inl TypeError
        \<or> snd (step C self actions) = Inl IndexError)
      \<and> dones_index (fst (step C self actions)) = dones_index self"
    if prep: "prepare_actions (action_type (desc self)) (n self) actions = Inr acts"
      and act: "getitem acts i = Inr a"
      and raised: "snd (env_step C (envs self ! i) a) = Inl e"
  proof (cases "step_tasks C (length (envs self)) acts (py_range (n self))")
    case (Inl err)
    then have "err = IndexError" by (rule step_tasks_error)
    with Inl prep show ?thesis by (simp add: step_def)
  next
    case (Inr tasks)
    obtain es pool where run: "run_threads tasks (envs self) = (es, pool)"
      by (cases "run_threads tasks (envs self)")
    have slots: "map fst tasks = py_range (n self)"
      by (rule step_tasks_slots [OF Inr])
    then have d: "distinct (map fst tasks)"
      by (simp add: py_range_def)
    from slots have len: "length tasks = nat (n self)"
      by (metis length_map length_upt py_range_def diff_zero)
    with assms(2) have i: "i < length tasks" by simp
    have ith: "py_range (n self) ! i = i"
      using assms(2) by (simp add: py_range_def)
    from assms(2) have "i < length (py_range (n self))"
      by (simp add: py_range_def)
    from step_tasks_nth [OF Inr this] act ith
    have f: "snd (tasks ! i) = (\<lambda>e. env_step C e a)" by auto
    have fst_i: "fst (tasks ! i) = i"
      using slots ith i by (metis nth_map)
    from run_threads_pool [OF d i, of "envs self"] run f fst_i raised
    have "pool ! i = Thread None"
      by (simp add: run_def)
    moreover have "length pool = length tasks"
      using run_threads_length_pool [of tasks "envs self"] run by simp
    ultimately have "PyNone \<in> set (map get_result pool)"
      using i by (metis (no_types, lifting) FakeMultiThread.sel get_result_def length_map
          nth_map nth_mem option.simps(4))
    then have "zip_results (map get_result pool) = Inl TypeError"
      by (simp add: zip_results_def values_of_None)
    with Inr prep run show ?thesis by (simp add: step_def)
  qed
  from on_reset on_step show ?thesis by blast
qed

theorem failed_task_yields_None_witness:
  "nat (n scenario_broken) \<le> length (envs scenario_broken)
   \<and> 1 < nat (n scenario_broken)
   \<and> snd (env_reset stub_class (envs scenario_broken ! 1)) = Inl (Exception ''reset failed'')
   \<and> (\<exists>obs. snd (reset stub_class scenario_broken) = Inr obs \<and> obs ! 1 = PyNone)
   \<and> prepare_actions (action_type (desc scenario_broken)) (n scenario_broken) stub_actions
       = Inr (Array stub_actions)
   \<and> getitem (Array stub_actions) 1 = Inr (ArrayAction \<lparr> shape = [], items = [0] \<rparr>)
   \<and> snd (env_step stub_class (envs scenario_broken ! 1)
            (ArrayAction \<lparr> shape = [], items = [0] \<rparr>)) = Inl (Exception ''step failed'')
   \<and> (snd (step stub_class scenario_broken stub_actions) = Inl TypeError
        \<or> snd (step stub_class scenario_broken stub_actions) = Inl IndexError)"
proof -
  have wf: "nat (n scenario_broken) \<le> length (envs scenario_broken)"
    and i: "1 < nat (n scenario_broken)"
    by (simp_all add: scenario_broken_def stub_manager_def)
  have r: "snd (env_reset stub_class (envs scenario_broken ! 1))
      = Inl (Exception ''reset failed'')"
    by (simp add: scenario_broken_def stub_manager_def stub_class_def)
  have p: "prepare_actions (action_type (desc scenario_broken)) (n scenario_broken)
      stub_actions = Inr (Array stub_actions)"
    by (simp add: prepare_actions_def scenario_broken_def stub_manager_def stub_desc_def
        reshape_flat_def stub_actions_def)
  have g: "getitem (Array stub_actions) 1 = Inr (ArrayAction \<lparr> shape = [], items = [0] \<rparr>)"
    by (simp add: getitem_def stub_actions_def)
  have s: "snd (env_step stub_class (envs scenario_broken ! 1)
      (ArrayAction \<lparr> shape = [], items = [0] \<rparr>)) = Inl (Exception ''step failed'')"
    by (simp add: scenario_broken_def stub_manager_def stub_class_def)
  from failed_task_yields_None [OF wf i, of stub_class "Exception ''reset failed''"] r
  have a: "\<exists>obs. snd (reset stub_class scenario_broken) = Inr obs \<and> obs ! 1 = PyNone"
    by blast
  from failed_task_yields_None [OF wf i, of stub_class "Exception ''step failed''"
      stub_actions "Array stub_actions" "ArrayAction \<lparr> shape = [], items = [0] \<rparr>"] p g s
  have b: "snd (step stub_class scenario_broken stub_actions) = Inl TypeError
        \<or> snd (step stub_class scenario_broken stub_actions) = Inl IndexError"
    by blast
  from wf i r a p g s b show ?thesis by blast
qed

text \<open>
  Claim C1 as stated fails on \<^verbatim>\<open>reset()\<close>: with a second environment whose \<^verbatim>\<open>reset\<close>
  raises, the batched call returns, and the failed slot holds \<^verbatim>\<open>None\<close>.
\<close>

theorem reset_substitutes_None:
  "snd (env_reset stub_class (envs scenario_broken ! 1)) = Inl (Exception ''reset failed'')
   \<and> snd (reset stub_class scenario_broken) = Inr [PyVal 0, PyNone]"
  by (simp add: reset_def scenario_broken_def stub_manager_def reset_slots_def py_range_def
      upt_rec stub_class_def run_def get_result_def)

section \<open>Render targets from a list\<close>

text \<open>
  Claim C2. The claim expects a list of in-range integers to become \<^verbatim>\<open>render_index\<close>.
  On the code, every list of integers, in range or not, ends at line 129 with the
  \<^verbatim>\<open>NameError\<close> of the unbound name \<^verbatim>\<open>index\<close>, and \<^verbatim>\<open>render_index\<close> is not assigned.
\<close>

theorem list_specifier_raises_NameError:
  "get_render_index sample self (ModeList (map IntItem idx)) = (self, Inl (NameError ''index''))"
proof -
  have "list_all is_int (map IntItem idx)"
    by (induction idx) simp_all
  then show ?thesis
    by (simp add: get_render_index_def)
qed

section \<open>Partial reset, twice\<close>

text \<open>
  Claim C3, amended. A \<^verbatim>\<open>partial_reset()\<close> that returns leaves \<^verbatim>\<open>dones_index\<close> as it
  was, and its batch has one entry per done index. Calling it again before another
  \<^verbatim>\<open>step()\<close> therefore returns again, with a batch of the same length (empty only when
  \<^verbatim>\<open>dones_index\<close> is empty), and resets the environments of the same slots once more,
  leaving the other slots alone.
\<close>

theorem partial_reset_keeps_dones_index:
  assumes "partial_reset C self = (self1, Inr obs1)"
  shows "dones_index self1 = dones_index self
     \<and> (\<exists>ds self2 obs2.
          dones_index self = NdArray ds \<and> length obs1 = length ds
        \<and> partial_reset C self1 = (self2, Inr obs2)
        \<and> length obs2 = length ds
        \<and> dones_index self2 = dones_index self
        \<and> (distinct ds \<longrightarrow>
             (\<forall>j < length (envs self1).
                envs self2 ! j = (if j \<in> set ds then fst (env_reset C (envs self1 ! j))
                                  else envs self1 ! j))))"
proof -
  from assms obtain ds es pool where
    ds: "dones_index self = NdArray ds"
    and rs: "reset_slots C ds (envs self) = Inr (es, pool)"
    and self1: "self1 = self\<lparr>envs := es\<rparr>"
    and obs1: "obs1 = map get_result pool"
    by (auto simp: partial_reset_def split: dones.splits sum.splits prod.splits)
  from reset_slots_Inr [OF rs] have
    inr: "list_all (\<lambda>i. i < length (envs self)) ds"
    and len_es: "length es = length (envs self)"
    and len_pool: "length pool = length ds"
    by simp_all
  let ?ts = "map (\<lambda>i. (i, env_reset C)) ds"
  obtain es2 pool2 where run2: "run_threads ?ts es = (es2, pool2)"
    by (cases "run_threads ?ts es")
  from inr len_es have rs2: "reset_slots C ds es = Inr (es2, pool2)"
    by (simp add: reset_slots_def run2)
  have second: "partial_reset C self1 = (self1\<lparr>envs := es2\<rparr>, Inr (map get_result pool2))"
    by (simp add: partial_reset_def self1 ds rs2)
  have len_pool2: "length pool2 = length ds"
    using run_threads_length_pool [of ?ts es] run2 by simp
  have slots: "envs (self1\<lparr>envs := es2\<rparr>) ! j
      = (if j \<in> set ds then fst (env_reset C (envs self1 ! j)) else envs self1 ! j)"
    if "distinct ds" and "j < length (envs self1)" for j
  proof -
    from that have d: "distinct (map fst ?ts)" and j: "j < length es"
      by (simp_all add: self1 comp_def)
    from run_threads_envs [OF d j] run2 show ?thesis
      by (simp add: map_of_slots self1)
  qed
  show ?thesis
    using ds self1 obs1 len_pool second len_pool2 slots by auto
qed

theorem partial_reset_keeps_dones_index_witness:
  "partial_reset stub_class scenario_stepped = (scenario_refreshed, Inr [PyVal 0])
   \<and> dones_index scenario_refreshed = dones_index scenario_stepped
   \<and> dones_index scenario_stepped = NdArray [0]
   \<and> distinct [0::nat]
   \<and> (0::nat) < length (envs scenario_refreshed)
   \<and> (\<exists>self2 obs2.
         partial_reset stub_class scenario_refreshed = (self2, Inr obs2)
       \<and> length obs2 = 1
       \<and> envs self2 ! 0 = fst (env_reset stub_class (envs scenario_refreshed ! 0)))"
proof -
  have h: "partial_reset stub_class scenario_stepped = (scenario_refreshed, Inr [PyVal 0])"
    by (simp add: partial_reset_def scenario_refreshed_def scenario_stepped_def reset_slots_def
        stub_class_def run_def get_result_def)
  have d: "dones_index scenario_stepped = NdArray [0]"
    by (simp add: scenario_stepped_def)
  have l: "(0::nat) < length (envs scenario_refreshed)"
    by (simp add: scenario_refreshed_def)
  from partial_reset_keeps_dones_index [OF h] d obtain self2 obs2 where
    keep: "dones_index scenario_refreshed = dones_index scenario_stepped"
    and again: "partial_reset stub_class scenario_refreshed = (self2, Inr obs2)"
    and len: "length obs2 = length [0::nat]"
    and slots: "distinct [0::nat] \<longrightarrow>
       (\<forall>j < length (envs scenario_refreshed).
          envs self2 ! j = (if j \<in> set [0::nat]
                            then fst (env_reset stub_class (envs scenario_refreshed ! j))
                            else envs scenario_refreshed ! j))"
    by auto
  from slots l have "envs self2 ! 0 = fst (env_reset stub_class (envs scenario_refreshed ! 0))"
    by simp
  with h keep d l again len show ?thesis by simp
qed

text \<open>
  Claim C3 as stated fails: after a step that ended the episode of slot 0, the second
  \<^verbatim>\<open>partial_reset()\<close> returns one observation, not an empty batch, and the environment
  of slot 0 has been reset a third time.
\<close>

theorem second_partial_reset_resets_again:
  "partial_reset stub_class scenario_stepped = (scenario_refreshed, Inr [PyVal 0])
   \<and> snd (partial_reset stub_class scenario_refreshed) = Inr [PyVal 0]
   \<and> envs scenario_refreshed = [Stub 0 2 False, Stub 1 1 False]
   \<and> envs (fst (partial_reset stub_class scenario_refreshed)) = [Stub 0 3 False, Stub 1 1 False]"
  by (simp add: partial_reset_def scenario_refreshed_def scenario_stepped_def reset_slots_def
      stub_class_def run_def get_result_def)

section \<open>Partial reset after reset\<close>

text \<open>
  Claim C4. The claim expects \<^verbatim>\<open>partial_reset()\<close> right after \<^verbatim>\<open>reset()\<close> to return an
  empty batch. On the code, \<^verbatim>\<open>reset()\<close> leaves the Python list \<^verbatim>\<open>[]\<close> in
  \<^verbatim>\<open>dones_index\<close>, and line 206 of \<^verbatim>\<open>partial_reset\<close> asks it for \<^verbatim>\<open>shape\<close>: for every
  manager and whatever the environments do, the call raises \<^verbatim>\<open>AttributeError\<close>.
\<close>

theorem partial_reset_after_reset_fails:
  "snd (partial_reset C (fst (reset C self))) = Inl AttributeError"
  by (simp add: partial_reset_def reset_def reset_slots_def Let_def split: sum.splits prod.splits)

section \<open>A tuple action space\<close>

text \<open>
  Claim C5. The claim expects a tuple of discrete slots to classify as
  \<^verbatim>\<open>Tuple(Discrete)\<close>. On the code, the assertion of line 80 admits only \<^verbatim>\<open>Box\<close> and
  \<^verbatim>\<open>Discrete\<close> action spaces, so every prototype with a tuple action space, whatever its
  slots, fails there and the branch of lines 105 to 109 is never reached.
\<close>

theorem initialize_rejects_tuple_action_space:
  "initialize (env\<lparr>action_space := Tuple slots\<rparr>)
     = (Inl (AssertionError
          ''action_space and observation_space must be one of available_type''),
        env\<lparr>action_space := Tuple slots\<rparr>)
   \<and> initialize tuple_prototype
     = (Inl (AssertionError
          ''action_space and observation_space must be one of available_type''),
        tuple_prototype)"
  by (simp add: initialize_def tuple_prototype_def)

section \<open>Closing the prototype\<close>

text \<open>
  Claim C6, amended. Classification closes the prototype exactly when it succeeds; when
  it fails, the prototype is left as it was handed in.
\<close>

theorem initialize_closes_on_success_only:
  "snd (initialize env)
     = (case fst (initialize env) of Inr d \<Rightarrow> env\<lparr>closed := True\<rparr> | Inl e \<Rightarrow> env)"
  by (simp add: initialize_def proto_close_def split: sum.splits prod.splits)

text \<open>
  Claim C6 as stated fails: a prototype with a rank-2 continuous action space fails the
  assertion of line 101 and is not closed.
\<close>

theorem initialize_leaves_failed_prototype_open:
  "fst (initialize matrix_prototype)
     = Inl (AssertionError
         ''if action space is continuous, the shape length of action must equal to 1'')
   \<and> \<not> closed (snd (initialize matrix_prototype))"
  by (simp add: initialize_def matrix_prototype_def stub_prototype_def
      process_observation_def process_action_def)

section \<open>The specifier \<^verbatim>\<open>last\<close>\<close>

text \<open>
  Claim C7, amended. For every instance count, resolving \<^verbatim>\<open>last\<close> yields the
  one-element list \<^verbatim>\<open>[-1]\<close>; \<^verbatim>\<open>render()\<close> uses it as a Python list index, which on a
  non-empty list of environments reads the last slot.
\<close>

theorem last_resolves_to_minus_one:
  "get_render_index sample self (ModeStr ''last'') = (self\<lparr>render_index := Some [- 1]\<rparr>, Inr ())
   \<and> (es \<noteq> [] \<longrightarrow>
        render_all C [- 1] es
          = (es[length es - 1 := fst (env_render C (es ! (length es - 1)))],
             snd (env_render C (es ! (length es - 1)))))"
proof -
  have resolved: "get_render_index sample self (ModeStr ''last'')
      = (self\<lparr>render_index := Some [- 1]\<rparr>, Inr ())"
    by (simp add: get_render_index_def)
  have rendered: "render_all C [- 1] es
      = (es[length es - 1 := fst (env_render C (es ! (length es - 1)))],
         snd (env_render C (es ! (length es - 1))))" if "es \<noteq> []"
  proof -
    from that have "py_position (length es) (- 1) = Inr (length es - 1)"
      by (cases es) (simp_all add: py_position_def)
    then show ?thesis
      by (simp split: prod.splits sum.splits)
  qed
  from resolved rendered show ?thesis by blast
qed

theorem last_resolves_to_minus_one_witness:
  "envs scenario_start \<noteq> []
   \<and> get_render_index first_k scenario_start (ModeStr ''last'')
       = (scenario_start\<lparr>render_index := Some [- 1]\<rparr>, Inr ())
   \<and> render_all stub_class [- 1] (envs scenario_start) = (envs scenario_start, Inr ())
   \<and> length (envs scenario_start) - 1 = 1"
proof -
  have ne: "envs scenario_start \<noteq> []"
    by (simp add: scenario_start_def stub_manager_def)
  have same: "(envs scenario_start)[length (envs scenario_start) - 1 :=
        fst (env_render stub_class (envs scenario_start ! (length (envs scenario_start) - 1)))]
      = envs scenario_start"
    and out: "snd (env_render stub_class
        (envs scenario_start ! (length (envs scenario_start) - 1))) = Inr ()"
    and pos: "length (envs scenario_start) - 1 = 1"
    by (simp_all add: scenario_start_def stub_manager_def stub_class_def)
  from last_resolves_to_minus_one [of first_k scenario_start "envs scenario_start" stub_class]
    ne same out pos
  show ?thesis by simp
qed

text \<open>
  Claim C7 as stated fails: with two instances the resolved list is not \<open>[N - 1]\<close>.
\<close>

theorem last_is_not_count_minus_one:
  "n scenario_start = 2
   \<and> render_index (fst (get_render_index first_k scenario_start (ModeStr ''last'')))
       \<noteq> Some [n scenario_start - 1]"
  by (simp add: get_render_index_def scenario_start_def stub_manager_def)

section \<open>Unrecognised string specifiers\<close>

text \<open>
  Claim C8. The claim expects every string outside the recognised forms to raise. On the
  code, a string with exactly one underscore whose first part is not \<^verbatim>\<open>random\<close>, or
  whose count is out of range, makes the condition of line 141 false; nothing follows,
  and the method returns normally without assigning \<^verbatim>\<open>render_index\<close>. A string
  with no underscore does raise: the \<^verbatim>\<open>ValueError\<close> of unpacking the split of line 140.
\<close>

theorem unknown_specifier_returns_normally:
  "get_render_index sample self (ModeStr ''foo_3'') = (self, Inr ())
   \<and> get_render_index sample self (ModeStr ''random_0'') = (self, Inr ())
   \<and> get_render_index sample self (ModeStr ''bogus'') = (self, Inl ValueError)"
  by (simp add: get_render_index_def py_int_def py_strip_def py_isspace_def is_digit_def
      digits_value_def)

section \<open>Done indices after a step\<close>

text \<open>
  Claim C9. After every \<^verbatim>\<open>step(actions)\<close> call that returns, \<^verbatim>\<open>dones_index\<close> is
  \<^verbatim>\<open>np.where(done)[0]\<close> of the returned \<open>done\<close> batch: exactly the slot indices whose
  returned flag is true, in strictly ascending order, one flag per slot of
  \<^verbatim>\<open>range(self.n)\<close>, the flag at position \<open>i\<close> being the one the environment of slot
  \<open>i\<close> returned for its own action slice; and the call gives the same manager and the
  same batches whatever \<^verbatim>\<open>dones_index\<close> held before.
\<close>

theorem step_recomputes_dones_index:
  assumes "step C self actions = (self', Inr (obs, reward, dn, info))"
  shows "dones_index self' = NdArray (np_where dn)
     \<and> set (np_where dn) = {i. i < length dn \<and> dn ! i}
     \<and> sorted_wrt (<) (np_where dn)
     \<and> length dn = nat (n self)
     \<and> (\<forall>i < nat (n self). \<exists>acts a ob r inf.
            prepare_actions (action_type (desc self)) (n self) actions = Inr acts
          \<and> getitem acts i = Inr a
          \<and> snd (env_step C (envs self ! i) a) = Inr (ob, r, dn ! i, inf))
     \<and> step C (self\<lparr>dones_index := d\<rparr>) actions = (self', Inr (obs, reward, dn, info))"
proof -
  from assms obtain acts tasks es threadpool where
    tasks: "step_tasks C (length (envs self)) acts (py_range (n self)) = Inr tasks"
    and run: "run_threads tasks (envs self) = (es, threadpool)"
    and zip: "zip_results (map get_result threadpool) = Inr (obs, reward, dn, info)"
    and self': "self' = self\<lparr>envs := es, dones_index := NdArray (np_where dn)\<rparr>"
    by (auto simp: step_def split: sum.splits prod.splits)
  have "length threadpool = length tasks"
    using run_threads_length_pool [of tasks "envs self"] run by simp
  moreover have "length tasks = nat (n self)"
    using step_tasks_slots [OF tasks] by (metis length_map length_upt py_range_def diff_zero)
  ultimately have len: "length dn = nat (n self)"
    using zip_results_Inr [OF zip] by simp
  have indep: "step C (self\<lparr>dones_index := d\<rparr>) actions = (self', Inr (obs, reward, dn, info))"
    by (simp add: step_ignores_dones_index assms)
  have srt: "sorted_wrt (<) (np_where dn)"
    by (simp add: np_where_def where_from_sorted)
  have flags: "\<forall>i < nat (n self). \<exists>acts a ob r inf.
        prepare_actions (action_type (desc self)) (n self) actions = Inr acts
      \<and> getitem acts i = Inr a
      \<and> snd (env_step C (envs self ! i) a) = Inr (ob, r, dn ! i, inf)"
    using step_flags_by_slot [OF assms] by blast
  have "dones_index self' = NdArray (np_where dn)"
    using self' by simp
  with len indep srt np_where_set [of dn] flags show ?thesis
    by blast
qed

theorem step_recomputes_dones_index_witness:
  "step stub_class scenario_start stub_actions
     = (scenario_stepped, Inr ([2, 1], [1, 1], [True, False], [(), ()]))
   \<and> dones_index scenario_stepped = NdArray (np_where [True, False])
   \<and> set (np_where [True, False]) = {i. i < length [True, False] \<and> [True, False] ! i}
   \<and> np_where [True, False] = [0]
   \<and> (0::nat) < nat (n scenario_start)
   \<and> (\<exists>acts a ob r inf.
         prepare_actions (action_type (desc scenario_start)) (n scenario_start) stub_actions
           = Inr acts
       \<and> getitem acts 0 = Inr a
       \<and> snd (env_step stub_class (envs scenario_start ! 0) a)
           = Inr (ob, r, [True, False] ! 0, inf))"
proof -
  have h: "step stub_class scenario_start stub_actions
     = (scenario_stepped, Inr ([2, 1], [1, 1], [True, False], [(), ()]))"
    by (simp add: step_def scenario_start_def scenario_stepped_def stub_manager_def
        stub_actions_def stub_desc_def prepare_actions_def reshape_flat_def py_range_def
        upt_rec getitem_def stub_class_def run_def get_result_def zip_results_def
        np_where_def)
  have w: "np_where [True, False] = [0]"
    by (simp add: np_where_def)
  have slot: "(0::nat) < nat (n scenario_start)"
    by (simp add: scenario_start_def stub_manager_def)
  note facts = step_recomputes_dones_index [OF h]
  from facts have a: "dones_index scenario_stepped = NdArray (np_where [True, False])"
    by blast
  from facts have b: "set (np_where [True, False])
      = {i. i < length [True, False] \<and> [True, False] ! i}"
    by blast
  from facts slot have c: "\<exists>acts a ob r inf.
         prepare_actions (action_type (desc scenario_start)) (n scenario_start) stub_actions
           = Inr acts
       \<and> getitem acts 0 = Inr a
       \<and> snd (env_step stub_class (envs scenario_start ! 0) a)
           = Inr (ob, r, [True, False] ! 0, inf)"
    by blast
  from h a b w slot c show ?thesis
    by blast
qed

section \<open>The DQN constructor\<close>

text \<open>
  Claim C10. Constructing a DQN agent with \<^verbatim>\<open>is_continuous\<close> true fails at construction
  with the assertion of line 28, whatever the rest of the constructor would do; so a
  construction that succeeds had \<^verbatim>\<open>is_continuous\<close> false.
\<close>

theorem DQN_rejects_continuous:
  "DQN_init True rest = Inl (AssertionError ''dqn only support discrete action space'')
   \<and> (\<forall>agent. DQN_init c rest = Inr agent \<longrightarrow> \<not> c)"
  by (simp add: DQN_init_def)

theorem DQN_rejects_continuous_witness:
  "DQN_init False (Inr (0::nat) :: error + nat) = Inr 0
   \<and> \<not> False
   \<and> DQN_init True (Inr (0::nat) :: error + nat)
       = Inl (AssertionError ''dqn only support discrete action space'')"
proof -
  have h: "DQN_init False (Inr (0::nat) :: error + nat) = Inr 0"
    by (simp add: DQN_init_def)
  from DQN_rejects_continuous [of "Inr (0::nat) :: error + nat" False] h show ?thesis
    by (simp add: DQN_init_def)
qed

end
